theory Spec2Isabelle
  imports Main "HOL-Library.AList"
begin

section \<open>Python values\<close>

text \<open>
  The deserializer of \<^verbatim>\<open>amazon_transcribe/deserialize.py\<close> works on what
  \<^verbatim>\<open>json.loads\<close> returns: \<^verbatim>\<open>None\<close>, booleans, numbers, strings, lists and
  dictionaries. A Python \<^verbatim>\<open>str\<close> is modelled as the list of its characters, a
  \<^verbatim>\<open>bytes\<close> object as the list of its bytes (both are \<^typ>\<open>string\<close>). A dictionary
  is an association list in insertion order; the keys of a dictionary are distinct.
  No arithmetic is done on numbers: a float is kept as the text of its literal.
\<close>

datatype json =
    JNull
  | JBool bool
  | JInt int
  | JFloat string
  | JString string
  | JArray "json list"
  | JObject "(string \<times> json) list"

text \<open>
  The service exceptions. Their module \<^verbatim>\<open>amazon_transcribe.exceptions\<close> is not among
  the sources: the classes are those that \<^verbatim>\<open>deserialize.py\<close> imports from it, each
  with the arguments of its constructor call in \<^verbatim>\<open>deserialize.py\<close>, and they are
  the kinds of service exception of the specification; the Unknown kind carries the status
  code and the error code besides the message. The message is whatever value the body holds
  under its key, so it is a \<^typ>\<open>json\<close>.
\<close>

datatype service_exception =
    ServiceException json
  | BadRequestException json
  | ConflictException json
  | InternalFailureException json
  | LimitExceededException json
  | ServiceUnavailableException json
  | SerializationException json
  | UnknownServiceException int string json

text \<open>
  The exception objects: what a call can raise, and what
  \<^verbatim>\<open>_parse_event_exception\<close> builds. \<^verbatim>\<open>JSONDecodeError\<close> and
  \<^verbatim>\<open>UnicodeDecodeError\<close> are subclasses of \<^verbatim>\<open>ValueError\<close>; \<open>Service\<close>
  is an instance of \<^verbatim>\<open>ServiceException\<close> or of one of its subclasses; \<open>Other\<close>
  is an exception of a class that is named nowhere in the sources.
\<close>

datatype exn =
    JSONDecodeError
  | UnicodeDecodeError
  | ValueError
  | RecursionError
  | TypeError
  | AttributeError
  | IndexError
  | KeyError
  | Service service_exception
  | Other string

fun is_ValueError :: "exn \<Rightarrow> bool" where
  "is_ValueError JSONDecodeError = True"
| "is_ValueError UnicodeDecodeError = True"
| "is_ValueError ValueError = True"
| "is_ValueError _ = False"

text \<open>A call either raises (\<open>Inl\<close>) or returns (\<open>Inr\<close>); \<open>bind\<close> is sequencing.\<close>

definition bind :: "exn + 'a \<Rightarrow> ('a \<Rightarrow> exn + 'b) \<Rightarrow> exn + 'b" where
  "bind m f = (case m of Inl e \<Rightarrow> Inl e | Inr x \<Rightarrow> f x)"

fun traverse :: "('a \<Rightarrow> exn + 'b) \<Rightarrow> 'a list \<Rightarrow> exn + 'b list" where
  "traverse f [] = Inr []"
| "traverse f (x # xs) =
     (case f x of
        Inl e \<Rightarrow> Inl e
      | Inr y \<Rightarrow> (case traverse f xs of Inl e \<Rightarrow> Inl e | Inr ys \<Rightarrow> Inr (y # ys)))"

text \<open>
  \<^verbatim>\<open>json.loads\<close> belongs to Python's standard library, not to this repository: the
  functions that call it take it as the parameter \<open>loads\<close>, from the bytes of a body to
  the exception it raises or the value it returns.
\<close>

type_synonym loads = "string \<Rightarrow> exn + json"

subsection \<open>Operations of the Python objects\<close>

text \<open>\<^verbatim>\<open>d.get(k, default)\<close> on a dictionary.\<close>

definition dict_get :: "(string \<times> json) list \<Rightarrow> string \<Rightarrow> json \<Rightarrow> json" where
  "dict_get d k dflt = (case map_of d k of None \<Rightarrow> dflt | Some v \<Rightarrow> v)"

text \<open>
  \<^verbatim>\<open>node.get(k, default)\<close>: only a dictionary has the method, every other value
  raises \<^verbatim>\<open>AttributeError\<close>. \<^verbatim>\<open>node.get(k)\<close> is the call with default
  \<^verbatim>\<open>None\<close>.
\<close>

fun py_get_default :: "json \<Rightarrow> string \<Rightarrow> json \<Rightarrow> exn + json" where
  "py_get_default (JObject d) k dflt = Inr (dict_get d k dflt)"
| "py_get_default _ k dflt = Inl AttributeError"

definition py_get :: "json \<Rightarrow> string \<Rightarrow> exn + json" where
  "py_get node k = py_get_default node k JNull"

text \<open>
  \<^verbatim>\<open>for e in node\<close>: a list gives its elements, a string its characters (strings of
  length one), a dictionary its keys; \<^verbatim>\<open>None\<close>, booleans and numbers are not
  iterable.
\<close>

fun py_iter :: "json \<Rightarrow> exn + json list" where
  "py_iter (JArray xs) = Inr xs"
| "py_iter (JString s) = Inr (map (\<lambda>c. JString [c]) s)"
| "py_iter (JObject d) = Inr (map (\<lambda>kv. JString (fst kv)) d)"
| "py_iter _ = Inl TypeError"

text \<open>The list comprehension \<^verbatim>\<open>[f(e) for e in node]\<close>.\<close>

definition list_comp :: "(json \<Rightarrow> exn + 'a) \<Rightarrow> json \<Rightarrow> exn + 'a list" where
  "list_comp f node = bind (py_iter node) (traverse f)"

fun startswith :: "string \<Rightarrow> string \<Rightarrow> bool" where
  "startswith s [] = True"
| "startswith [] (p # ps) = False"
| "startswith (c # cs) (p # ps) = (c = p \<and> startswith cs ps)"

fun str_contains :: "string \<Rightarrow> string \<Rightarrow> bool" where
  "str_contains [] sub = (sub = [])"
| "str_contains (c # cs) sub = (startswith (c # cs) sub \<or> str_contains cs sub)"

text \<open>
  \<^verbatim>\<open>k in obj\<close> for a string \<open>k\<close>: key membership in a dictionary, element
  membership in a list, the substring test in a string, \<^verbatim>\<open>TypeError\<close> otherwise.
\<close>

fun py_contains :: "json \<Rightarrow> string \<Rightarrow> exn + bool" where
  "py_contains (JObject d) k = Inr (map_of d k \<noteq> None)"
| "py_contains (JArray xs) k = Inr (JString k \<in> set xs)"
| "py_contains (JString s) k = Inr (str_contains s k)"
| "py_contains _ k = Inl TypeError"

text \<open>
  \<^verbatim>\<open>obj[k]\<close> for a string \<open>k\<close>: the value in a dictionary (\<^verbatim>\<open>KeyError\<close> when
  the key is missing); lists and strings take integer indices only, the other values are not
  subscriptable.
\<close>

fun py_getitem :: "json \<Rightarrow> string \<Rightarrow> exn + json" where
  "py_getitem (JObject d) k = (case map_of d k of None \<Rightarrow> Inl KeyError | Some v \<Rightarrow> Inr v)"
| "py_getitem _ k = Inl TypeError"

text \<open>
  \<^verbatim>\<open>s.split(sep)\<close> for a separator of one character, and \<^verbatim>\<open>xs[0]\<close>.
\<close>

fun split_from :: "string \<Rightarrow> char \<Rightarrow> string \<Rightarrow> string list" where
  "split_from acc sep [] = [rev acc]"
| "split_from acc sep (c # cs) =
     (if c = sep then rev acc # split_from [] sep cs else split_from (c # acc) sep cs)"

definition str_split :: "string \<Rightarrow> char \<Rightarrow> string list" where
  "str_split s sep = split_from [] sep s"

definition first :: "'a list \<Rightarrow> exn + 'a" where
  "first xs = (case xs of [] \<Rightarrow> Inl IndexError | x # _ \<Rightarrow> Inr x)"

section \<open>TranscribeStreamingResponseParser: HTTP errors\<close>

text \<open>
  Modelled from the spec: the class \<^verbatim>\<open>Response\<close> of
  \<^verbatim>\<open>amazon_transcribe.response\<close> is not among the sources. The HTTP error path is
  handed a status code, a header map and the bytes of the body; the record has the two
  attributes that the parser reads, the headers being a dictionary from names to strings.
\<close>

record Response =
  status_code :: int
  headers :: "string \<rightharpoonup> string"

definition get_error_code :: "Response \<Rightarrow> exn + string" where
  "get_error_code http_response =
     (case Response.headers http_response ''x-amzn-errortype'' of
        None \<Rightarrow> Inr ''Unknown''
      | Some error_code \<Rightarrow> first (str_split error_code (CHR '':'')))"

definition get_error_message :: "loads \<Rightarrow> string \<Rightarrow> exn + json" where
  "get_error_message loads body_bytes =
     (let error_message = JString ''An unknown error was returned by the service'' in
      case loads body_bytes of
        Inl e \<Rightarrow> if e = JSONDecodeError then Inr error_message else Inl e
      | Inr parsed_body \<Rightarrow>
          bind (py_contains parsed_body ''Message'') (\<lambda>has_Message.
            if has_Message then py_getitem parsed_body ''Message''
            else bind (py_contains parsed_body ''message'') (\<lambda>has_message.
              if has_message then py_getitem parsed_body ''message''
              else Inr error_message)))"

definition parse_exception :: "loads \<Rightarrow> Response \<Rightarrow> string \<Rightarrow> exn + service_exception" where
  "parse_exception loads http_response body_bytes =
     bind (get_error_code http_response) (\<lambda>error_code.
     bind (get_error_message loads body_bytes) (\<lambda>error_message.
       if error_code = ''BadRequestException'' then
         Inr (BadRequestException error_message)
       else if error_code = ''ConflictException'' then
         Inr (ConflictException error_message)
       else if error_code = ''InternalFailureException'' then
         Inr (InternalFailureException error_message)
       else if error_code = ''LimitExceededException'' then
         Inr (LimitExceededException error_message)
       else if error_code = ''ServiceUnavailableException'' then
         Inr (ServiceUnavailableException error_message)
       else if error_code = ''SerializationException'' then
         Inr (SerializationException error_message)
       else
         Inr (UnknownServiceException (status_code http_response) error_code error_message)))"

section \<open>The model classes built by the event parser\<close>

text \<open>
  The classes of \<^verbatim>\<open>amazon_transcribe/model.py\<close>. An attribute filled from
  \<^verbatim>\<open>node.get(k)\<close> holds the value of the key, which is \<^verbatim>\<open>None\<close>
  (\<^const>\<open>JNull\<close>) when the key is absent. A list attribute that may be
  \<^verbatim>\<open>None\<close> is a \<^typ>\<open>'a list option\<close>.
\<close>

record Item =
  start_time :: json
  end_time :: json
  item_type :: json
  content :: json
  vocabulary_filter_match :: json
  speaker :: json
  confidence :: json
  stable :: json

record Entity =
  start_time :: json
  end_time :: json
  category :: json
  type :: json
  content :: json
  confidence :: json

record Alternative =
  transcript :: json
  items :: "Item list"
  entities :: "Entity list option"

record LanguageWithScore =
  language_code :: json
  score :: json

record Result =
  result_id :: json
  start_time :: json
  end_time :: json
  is_partial :: json
  alternatives :: "Alternative list option"
  channel_id :: json
  language_code :: json
  language_identification :: "LanguageWithScore option list option"

record Transcript =
  results :: "Result list"

record CharacterOffsets =
  "begin" :: json
  "end" :: json

record IssueDetected =
  character_offsets :: CharacterOffsets

record CallAnalyticsItem =
  begin_offset_millis :: json
  end_offset_millis :: json
  item_type :: json
  content :: json
  confidence :: json
  vocabulary_filter_match :: json
  stable :: json

record CallAnalyticsEntity =
  begin_offset_millis :: json
  end_offset_millis :: json
  category :: json
  entity_type :: json
  content :: json
  confidence :: json

record TimestampRange =
  begin_offset_millis :: json
  end_offset_millis :: json

record PointsOfInterest =
  timestamp_ranges :: "TimestampRange list"

text \<open>
  The events the parser returns, with the arguments of their constructors in the order of
  the source: \<^verbatim>\<open>TranscriptEvent(transcript)\<close>,
  \<^verbatim>\<open>UtteranceEvent(utterance_id, is_partial, participant_role, begin_offset_millis,
  end_offset_millis, transcript, items, entities, sentiment, issues_detected)\<close> and
  \<^verbatim>\<open>CategoryEvent(matched_categories, matched_details)\<close>.
\<close>

datatype BaseEvent =
    TranscriptEvent Transcript
  | UtteranceEvent json json json json json json
      "CallAnalyticsItem list option" "CallAnalyticsEntity list option" json
      "IssueDetected list option"
  | CategoryEvent "json list" "(string \<times> PointsOfInterest) list"

section \<open>TranscribeStreamingEventParser: the nested objects\<close>

subsection \<open>Transcript events\<close>

definition parse_item :: "json \<Rightarrow> exn + Item" where
  "parse_item current_node =
     bind (py_get current_node ''StartTime'') (\<lambda>start_time.
     bind (py_get current_node ''EndTime'') (\<lambda>end_time.
     bind (py_get current_node ''Type'') (\<lambda>item_type.
     bind (py_get current_node ''Content'') (\<lambda>content.
     bind (py_get current_node ''VocabularyFilterMatch'') (\<lambda>vocabulary_filter_match.
     bind (py_get current_node ''Speaker'') (\<lambda>speaker.
     bind (py_get current_node ''Confidence'') (\<lambda>confidence.
     bind (py_get current_node ''Stable'') (\<lambda>stable.
       Inr \<lparr>Item.start_time = start_time, Item.end_time = end_time,
            Item.item_type = item_type, Item.content = content,
            Item.vocabulary_filter_match = vocabulary_filter_match,
            Item.speaker = speaker, Item.confidence = confidence,
            Item.stable = stable\<rparr>))))))))"

definition parse_item_list :: "json \<Rightarrow> exn + Item list" where
  "parse_item_list current_node = list_comp parse_item current_node"

definition parse_entity :: "json \<Rightarrow> exn + Entity" where
  "parse_entity current_node =
     bind (py_get current_node ''StartTime'') (\<lambda>start_time.
     bind (py_get current_node ''EndTime'') (\<lambda>end_time.
     bind (py_get current_node ''Category'') (\<lambda>category.
     bind (py_get current_node ''Type'') (\<lambda>type.
     bind (py_get current_node ''Content'') (\<lambda>content.
     bind (py_get current_node ''Confidence'') (\<lambda>confidence.
       Inr \<lparr>Entity.start_time = start_time, Entity.end_time = end_time,
            Entity.category = category, Entity.type = type, Entity.content = content,
            Entity.confidence = confidence\<rparr>))))))"

definition parse_entity_list :: "json \<Rightarrow> exn + Entity list option" where
  "parse_entity_list current_node =
     (if current_node = JNull then Inr None
      else bind (list_comp parse_entity current_node) (\<lambda>es. Inr (Some es)))"

definition parse_alternative :: "json \<Rightarrow> exn + Alternative" where
  "parse_alternative current_node =
     bind (py_get current_node ''Transcript'') (\<lambda>transcript.
     bind (py_get current_node ''Items'') (\<lambda>items_node.
     bind (parse_item_list items_node) (\<lambda>items.
     bind (py_get current_node ''Entities'') (\<lambda>entities_node.
     bind (parse_entity_list entities_node) (\<lambda>entities.
       Inr \<lparr>Alternative.transcript = transcript, Alternative.items = items,
            Alternative.entities = entities\<rparr>)))))"

definition parse_alternative_list :: "json \<Rightarrow> exn + Alternative list option" where
  "parse_alternative_list current_node =
     (if current_node = JNull then Inr None
      else bind (list_comp parse_alternative current_node) (\<lambda>as. Inr (Some as)))"

definition parse_language_with_score :: "json \<Rightarrow> exn + LanguageWithScore option" where
  "parse_language_with_score current_node =
     (if current_node = JNull then Inr None
      else
        bind (py_get current_node ''LanguageCode'') (\<lambda>language_code.
        bind (py_get current_node ''Score'') (\<lambda>score.
          Inr (Some \<lparr>LanguageWithScore.language_code = language_code,
                     LanguageWithScore.score = score\<rparr>))))"

definition parse_language_identification_list ::
    "json \<Rightarrow> exn + LanguageWithScore option list option" where
  "parse_language_identification_list current_node =
     (if current_node = JNull then Inr None
      else bind (list_comp parse_language_with_score current_node) (\<lambda>ls. Inr (Some ls)))"

text \<open>
  \<^verbatim>\<open>Result\<close> is built without its \<^verbatim>\<open>language_code\<close> argument, which defaults to
  \<^verbatim>\<open>None\<close>.
\<close>

definition parse_result :: "json \<Rightarrow> exn + Result" where
  "parse_result current_node =
     bind (py_get current_node ''Alternatives'') (\<lambda>alternatives_node.
     bind (parse_alternative_list alternatives_node) (\<lambda>alternatives.
     bind (py_get current_node ''LanguageIdentification'') (\<lambda>language_identification_node.
     bind (parse_language_identification_list language_identification_node)
       (\<lambda>language_identification.
     bind (py_get current_node ''ResultId'') (\<lambda>result_id.
     bind (py_get current_node ''StartTime'') (\<lambda>start_time.
     bind (py_get current_node ''EndTime'') (\<lambda>end_time.
     bind (py_get current_node ''IsPartial'') (\<lambda>is_partial.
     bind (py_get current_node ''ChannelId'') (\<lambda>channel_id.
       Inr \<lparr>Result.result_id = result_id, Result.start_time = start_time,
            Result.end_time = end_time, Result.is_partial = is_partial,
            Result.alternatives = alternatives, Result.channel_id = channel_id,
            Result.language_code = JNull,
            Result.language_identification = language_identification\<rparr>)))))))))"

definition parse_result_list :: "json \<Rightarrow> exn + Result list" where
  "parse_result_list current_node = list_comp parse_result current_node"

definition parse_transcript :: "json \<Rightarrow> exn + Transcript" where
  "parse_transcript current_node =
     bind (py_get current_node ''Results'') (\<lambda>results_node.
     bind (parse_result_list results_node) (\<lambda>results.
       Inr \<lparr>Transcript.results = results\<rparr>))"

definition parse_transcript_event :: "json \<Rightarrow> exn + BaseEvent" where
  "parse_transcript_event current_node =
     bind (py_get current_node ''Transcript'') (\<lambda>transcript_node.
     bind (parse_transcript transcript_node) (\<lambda>transcript.
       Inr (TranscriptEvent transcript)))"

subsection \<open>Utterance events\<close>

definition parse_call_analytics_item :: "json \<Rightarrow> exn + CallAnalyticsItem" where
  "parse_call_analytics_item current_node =
     bind (py_get current_node ''BeginOffsetMillis'') (\<lambda>begin_offset_millis.
     bind (py_get current_node ''EndOffsetMillis'') (\<lambda>end_offset_millis.
     bind (py_get current_node ''Type'') (\<lambda>item_type.
     bind (py_get current_node ''Content'') (\<lambda>content.
     bind (py_get current_node ''Confidence'') (\<lambda>confidence.
     bind (py_get current_node ''VocabularyFilterMatch'') (\<lambda>vocabulary_filter_match.
     bind (py_get current_node ''Stable'') (\<lambda>stable.
       Inr \<lparr>CallAnalyticsItem.begin_offset_millis = begin_offset_millis,
            CallAnalyticsItem.end_offset_millis = end_offset_millis,
            CallAnalyticsItem.item_type = item_type,
            CallAnalyticsItem.content = content,
            CallAnalyticsItem.confidence = confidence,
            CallAnalyticsItem.vocabulary_filter_match = vocabulary_filter_match,
            CallAnalyticsItem.stable = stable\<rparr>)))))))"

definition parse_call_analytics_entity :: "json \<Rightarrow> exn + CallAnalyticsEntity" where
  "parse_call_analytics_entity current_node =
     bind (py_get current_node ''BeginOffsetMillis'') (\<lambda>begin_offset_millis.
     bind (py_get current_node ''EndOffsetMillis'') (\<lambda>end_offset_millis.
     bind (py_get current_node ''Category'') (\<lambda>category.
     bind (py_get current_node ''Type'') (\<lambda>entity_type.
     bind (py_get current_node ''Content'') (\<lambda>content.
     bind (py_get current_node ''Confidence'') (\<lambda>confidence.
       Inr \<lparr>CallAnalyticsEntity.begin_offset_millis = begin_offset_millis,
            CallAnalyticsEntity.end_offset_millis = end_offset_millis,
            CallAnalyticsEntity.category = category,
            CallAnalyticsEntity.entity_type = entity_type,
            CallAnalyticsEntity.content = content,
            CallAnalyticsEntity.confidence = confidence\<rparr>))))))"

definition parse_character_offsets :: "json \<Rightarrow> exn + CharacterOffsets" where
  "parse_character_offsets current_node =
     bind (py_get current_node ''Begin'') (\<lambda>b.
     bind (py_get current_node ''End'') (\<lambda>e.
       Inr \<lparr>CharacterOffsets.begin = b, CharacterOffsets.end = e\<rparr>))"

definition parse_issue_detected :: "json \<Rightarrow> exn + IssueDetected" where
  "parse_issue_detected current_node =
     bind (py_get current_node ''CharacterOffsets'') (\<lambda>character_offsets_node.
     bind (parse_character_offsets character_offsets_node) (\<lambda>character_offsets.
       Inr \<lparr>IssueDetected.character_offsets = character_offsets\<rparr>))"

definition parse_call_analytics_item_list :: "json \<Rightarrow> exn + CallAnalyticsItem list option" where
  "parse_call_analytics_item_list current_node =
     (if current_node = JNull then Inr None
      else bind (list_comp parse_call_analytics_item current_node) (\<lambda>xs. Inr (Some xs)))"

definition parse_call_analytics_entity_list ::
    "json \<Rightarrow> exn + CallAnalyticsEntity list option" where
  "parse_call_analytics_entity_list current_node =
     (if current_node = JNull then Inr None
      else bind (list_comp parse_call_analytics_entity current_node) (\<lambda>xs. Inr (Some xs)))"

definition parse_issues_detected_list :: "json \<Rightarrow> exn + IssueDetected list option" where
  "parse_issues_detected_list current_node =
     (if current_node = JNull then Inr None
      else bind (list_comp parse_issue_detected current_node) (\<lambda>xs. Inr (Some xs)))"

definition parse_utterance_event :: "json \<Rightarrow> exn + BaseEvent" where
  "parse_utterance_event current_node =
     bind (py_get current_node ''UtteranceId'') (\<lambda>utterance_id.
     bind (py_get current_node ''IsPartial'') (\<lambda>is_partial.
     bind (py_get current_node ''ParticipantRole'') (\<lambda>participant_role.
     bind (py_get current_node ''BeginOffsetMillis'') (\<lambda>begin_offset_millis.
     bind (py_get current_node ''EndOffsetMillis'') (\<lambda>end_offset_millis.
     bind (py_get current_node ''Transcript'') (\<lambda>transcript.
     bind (py_get current_node ''Items'') (\<lambda>items_node.
     bind (parse_call_analytics_item_list items_node) (\<lambda>items.
     bind (py_get current_node ''Entities'') (\<lambda>entities_node.
     bind (parse_call_analytics_entity_list entities_node) (\<lambda>entities.
     bind (py_get current_node ''Sentiment'') (\<lambda>sentiment.
     bind (py_get current_node ''IssuesDetected'') (\<lambda>issues_node.
     bind (parse_issues_detected_list issues_node) (\<lambda>issues_detected.
       Inr (UtteranceEvent utterance_id is_partial participant_role begin_offset_millis
              end_offset_millis transcript items entities sentiment
              issues_detected))))))))))))))"

subsection \<open>Category events\<close>

definition parse_category :: "json \<Rightarrow> exn + json" where
  "parse_category current_node = Inr current_node"

definition parse_matched_categories_list :: "json \<Rightarrow> exn + json list" where
  "parse_matched_categories_list current_node = list_comp parse_category current_node"

definition parse_timestamp_range :: "json \<Rightarrow> exn + TimestampRange" where
  "parse_timestamp_range current_node =
     bind (py_get current_node ''BeginOffsetMillis'') (\<lambda>begin_offset_millis.
     bind (py_get current_node ''EndOffsetMillis'') (\<lambda>end_offset_millis.
       Inr \<lparr>TimestampRange.begin_offset_millis = begin_offset_millis,
            TimestampRange.end_offset_millis = end_offset_millis\<rparr>))"

definition parse_timestamp_ranges :: "json \<Rightarrow> exn + TimestampRange list" where
  "parse_timestamp_ranges current_node = list_comp parse_timestamp_range current_node"

definition parse_points_of_interest :: "json \<Rightarrow> exn + PointsOfInterest" where
  "parse_points_of_interest current_node =
     bind (py_get current_node ''TimestampRanges'') (\<lambda>timestamp_ranges_node.
     bind (parse_timestamp_ranges timestamp_ranges_node) (\<lambda>timestamp_ranges.
       Inr \<lparr>PointsOfInterest.timestamp_ranges = timestamp_ranges\<rparr>))"

text \<open>\<^verbatim>\<open>node.items()\<close>: a method of dictionaries only.\<close>

fun py_items :: "json \<Rightarrow> exn + (string \<times> json) list" where
  "py_items (JObject d) = Inr d"
| "py_items _ = Inl AttributeError"

text \<open>
  The loop \<^verbatim>\<open>for key, value in current_node.items(): matched_details[key] = ...\<close>,
  with the dictionary built so far as its state.
\<close>

fun matched_details_loop ::
    "(string \<times> PointsOfInterest) list \<Rightarrow> (string \<times> json) list \<Rightarrow>
     exn + (string \<times> PointsOfInterest) list" where
  "matched_details_loop matched_details [] = Inr matched_details"
| "matched_details_loop matched_details (kv # rest) =
     bind (parse_points_of_interest (snd kv)) (\<lambda>p.
       matched_details_loop (AList.update (fst kv) p matched_details) rest)"

definition parse_matched_details_dict :: "json \<Rightarrow> exn + (string \<times> PointsOfInterest) list" where
  "parse_matched_details_dict current_node =
     bind (py_items current_node) (matched_details_loop [])"

definition parse_category_event :: "json \<Rightarrow> exn + BaseEvent" where
  "parse_category_event current_node =
     bind (py_get current_node ''MatchedCategories'') (\<lambda>matched_categories_node.
     bind (parse_matched_categories_list matched_categories_node) (\<lambda>matched_categories.
     bind (py_get current_node ''MatchedDetails'') (\<lambda>matched_details_node.
     bind (parse_matched_details_dict matched_details_node) (\<lambda>matched_details.
       Inr (CategoryEvent matched_categories matched_details)))))"

section \<open>TranscribeStreamingEventParser: the dispatcher\<close>

text \<open>
  Modelled from the spec: the decoded frame that \<^verbatim>\<open>amazon_transcribe.eventstream\<close>
  hands to the parser is not among the sources. A frame is a mapping from header names to
  typed values (a string, an integer, a boolean or a byte string) and an opaque payload of
  bytes. Only a string is equal to a string, so a header of another type matches none of the
  names the dispatcher compares it with.
\<close>

datatype header_value = HStr string | HInt int | HBool bool | HBytes string

record raw_event =
  headers :: "string \<rightharpoonup> header_value"
  payload :: string

text \<open>
  \<^verbatim>\<open>_parse_event_exception\<close> looks the exception class up by name in the namespace
  of the module \<^verbatim>\<open>amazon_transcribe.exceptions\<close>, which is not among the sources. An
  entry of the namespace is the call of the attribute with the message as its only argument:
  the exception the call raises, or the exception object it returns.
  The entries that the sources fix are the kinds of the specification that are built from a
  message alone: the six classes that \<^verbatim>\<open>parse_exception\<close> calls so, and
  \<^verbatim>\<open>ServiceException\<close>, the default of the lookup. Every other attribute of the
  module is the parameter \<open>others\<close>: among them \<^verbatim>\<open>UnknownServiceException\<close>, which
  \<^verbatim>\<open>parse_exception\<close> calls with three arguments, \<^verbatim>\<open>ValidationException\<close>,
  which \<^verbatim>\<open>serialize.py\<close> imports, and the attributes that every module has. A name
  with \<open>others name = None\<close> is not an attribute of the module.
\<close>

type_synonym namespace = "string \<rightharpoonup> (json \<Rightarrow> exn + exn)"

definition transcribe_exceptions :: "namespace \<Rightarrow> namespace" where
  "transcribe_exceptions others name =
     (case map_of
        [(''ServiceException'', \<lambda>m. Inr (Service (ServiceException m))),
         (''BadRequestException'', \<lambda>m. Inr (Service (BadRequestException m))),
         (''ConflictException'', \<lambda>m. Inr (Service (ConflictException m))),
         (''InternalFailureException'', \<lambda>m. Inr (Service (InternalFailureException m))),
         (''LimitExceededException'', \<lambda>m. Inr (Service (LimitExceededException m))),
         (''ServiceUnavailableException'',
            \<lambda>m. Inr (Service (ServiceUnavailableException m))),
         (''SerializationException'', \<lambda>m. Inr (Service (SerializationException m)))]
        name of
        Some exception_cls \<Rightarrow> Some exception_cls
      | None \<Rightarrow> others name)"

text \<open>
  \<^verbatim>\<open>getattr(transcribe_exceptions, name, ServiceException)\<close>: an attribute name that
  is not a string raises \<^verbatim>\<open>TypeError\<close>.
\<close>

fun getattr_exceptions :: "namespace \<Rightarrow> header_value \<Rightarrow> exn + (json \<Rightarrow> exn + exn)" where
  "getattr_exceptions others (HStr name) =
     Inr (case transcribe_exceptions others name of
            None \<Rightarrow> (\<lambda>m. Inr (Service (ServiceException m)))
          | Some exception_cls \<Rightarrow> exception_cls)"
| "getattr_exceptions others _ = Inl TypeError"

definition parse_event_exception :: "loads \<Rightarrow> namespace \<Rightarrow> raw_event \<Rightarrow> exn + exn" where
  "parse_event_exception loads others raw_event =
     (let exception_type =
            (case raw_event.headers raw_event '':exception-type'' of
               None \<Rightarrow> HStr ''ServiceException''
             | Some v \<Rightarrow> v)
      in
      bind (getattr_exceptions others exception_type) (\<lambda>exception_cls.
      bind (case loads (raw_event.payload raw_event) of
              Inl e \<Rightarrow> if is_ValueError e then Inr (JObject []) else Inl e
            | Inr raw_body \<Rightarrow> Inr raw_body) (\<lambda>raw_body.
      bind (py_get_default raw_body ''Message''
              (JString ''An unknown service exception occured'')) (\<lambda>exception_msg.
        exception_cls exception_msg))))"

text \<open>
  \<^verbatim>\<open>parse\<close> returns \<open>Inr None\<close> for \<^verbatim>\<open>None\<close>, \<open>Inr (Some ev)\<close> for an
  event, and \<open>Inl e\<close> when it raises; \<^verbatim>\<open>raise self._parse_event_exception(raw_event)\<close>
  raises the exception that the call returns, unless the call itself raises.
\<close>

definition parse :: "loads \<Rightarrow> namespace \<Rightarrow> raw_event \<Rightarrow> exn + BaseEvent option" where
  "parse loads others raw_event =
     (let message_type = raw_event.headers raw_event '':message-type'' in
      if message_type = Some (HStr ''error'') \<or> message_type = Some (HStr ''exception'') then
        bind (parse_event_exception loads others raw_event) (\<lambda>exc. Inl exc)
      else if message_type = Some (HStr ''event'') then
        (let event_type = raw_event.headers raw_event '':event-type'' in
         bind (loads (raw_event.payload raw_event)) (\<lambda>raw_body.
           if event_type = Some (HStr ''TranscriptEvent'') then
             bind (parse_transcript_event raw_body) (\<lambda>ev. Inr (Some ev))
           else if event_type = Some (HStr ''UtteranceEvent'') then
             bind (parse_utterance_event raw_body) (\<lambda>ev. Inr (Some ev))
           else if event_type = Some (HStr ''CategoryEvent'') then
             bind (parse_category_event raw_body) (\<lambda>ev. Inr (Some ev))
           else Inr None))
      else Inr None)"

section \<open>AudioEventSerializer\<close>

text \<open>
  \<^verbatim>\<open>AudioEvent(audio_chunk)\<close> hands the chunk, or the empty byte string for
  \<^verbatim>\<open>None\<close>, to the constructor of its base class as the payload, which is the
  attribute the serializer reads (the base class \<^verbatim>\<open>BaseEvent\<close> of
  \<^verbatim>\<open>amazon_transcribe.eventstream\<close> is not among the sources). The serializer returns
  the header dictionary, in the order it is written, and the payload.
\<close>

record AudioEvent =
  payload :: string

definition AudioEvent :: "string option \<Rightarrow> AudioEvent" where
  "AudioEvent audio_chunk =
     \<lparr>AudioEvent.payload = (case audio_chunk of None \<Rightarrow> [] | Some chunk \<Rightarrow> chunk)\<rparr>"

definition serialize :: "AudioEvent \<Rightarrow> (string \<times> string) list \<times> string" where
  "serialize audio_event =
     (let headers =
        [('':message-type'', ''event''),
         ('':event-type'', ''AudioEvent''),
         ('':content-type'', ''application/octet-stream'')]
      in (headers, AudioEvent.payload audio_event))"

section \<open>A decoder for ASCII JSON text\<close>

text \<open>
  To run the parsers on concrete bodies, \<open>json_loads\<close> decodes JSON text the way
  \<^verbatim>\<open>json.loads\<close> does when the bytes are ASCII characters other than NUL: white
  space is space, tab, line feed and carriage return; the scalars are \<^verbatim>\<open>null\<close>,
  \<^verbatim>\<open>true\<close>, \<^verbatim>\<open>false\<close>, \<^verbatim>\<open>NaN\<close>, \<^verbatim>\<open>Infinity\<close>,
  \<^verbatim>\<open>-Infinity\<close> and the numbers of the JSON grammar; a string may not hold a
  control character; a repeated key of an object keeps its first position and its last
  value; text that is not one JSON value raises \<^verbatim>\<open>JSONDecodeError\<close>. A byte
  above 127 is reported as \<^verbatim>\<open>UnicodeDecodeError\<close>, as for a body that is not
  UTF-8, and a \<^verbatim>\<open>u\<close> escape above \<^verbatim>\<open>00FF\<close> is rejected: the decoding of
  UTF-8, UTF-16 and UTF-32 is not modelled. Every theorem that is not about one concrete
  body is stated for an arbitrary \<open>loads\<close>.
\<close>

subsection \<open>Scalars\<close>

definition is_digit :: "char \<Rightarrow> bool" where
  "is_digit c = (48 \<le> (of_char c :: nat) \<and> (of_char c :: nat) \<le> 57)"

definition is_alpha :: "char \<Rightarrow> bool" where
  "is_alpha c = (let n = (of_char c :: nat) in (65 \<le> n \<and> n \<le> 90) \<or> (97 \<le> n \<and> n \<le> 122))"

definition is_word_char :: "char \<Rightarrow> bool" where
  "is_word_char c = (is_digit c \<or> is_alpha c \<or> c = CHR ''+'' \<or> c = CHR ''-'' \<or> c = CHR ''.'')"

definition is_whitespace :: "char \<Rightarrow> bool" where
  "is_whitespace c = (c = CHR '' '' \<or> c = CHR 0x09 \<or> c = CHR 0x0A \<or> c = CHR 0x0D)"

definition digits_value :: "string \<Rightarrow> int" where
  "digits_value ds = foldl (\<lambda>n c. 10 * n + (int (of_char c) - 48)) 0 ds"

definition valid_exponent :: "string \<Rightarrow> bool" where
  "valid_exponent r =
     (case r of
        [] \<Rightarrow> True
      | c # r' \<Rightarrow>
          (c = CHR ''e'' \<or> c = CHR ''E'') \<and>
          (let ds = (case r' of
                       [] \<Rightarrow> []
                     | s # r'' \<Rightarrow> if s = CHR ''+'' \<or> s = CHR ''-'' then r'' else r')
           in ds \<noteq> [] \<and> list_all is_digit ds))"

definition valid_fraction :: "string \<Rightarrow> bool" where
  "valid_fraction r =
     (case r of
        [] \<Rightarrow> True
      | c # r' \<Rightarrow>
          if c = CHR ''.'' then
            takeWhile is_digit r' \<noteq> [] \<and> valid_exponent (dropWhile is_digit r')
          else valid_exponent r)"

definition number_literal :: "string \<Rightarrow> json option" where
  "number_literal w =
     (let negative = (case w of [] \<Rightarrow> False | c # _ \<Rightarrow> c = CHR ''-'');
          body = (if negative then tl w else w);
          ds = takeWhile is_digit body;
          r = dropWhile is_digit body
      in if ds = [] \<or> (take 1 ds = ''0'' \<and> ds \<noteq> ''0'') then None
         else if r = [] then Some (JInt (if negative then - digits_value ds else digits_value ds))
         else if valid_fraction r then Some (JFloat w)
         else None)"

definition scalar :: "string \<Rightarrow> json option" where
  "scalar w =
     (if w = ''null'' then Some JNull
      else if w = ''true'' then Some (JBool True)
      else if w = ''false'' then Some (JBool False)
      else if w = ''NaN'' \<or> w = ''Infinity'' \<or> w = ''-Infinity'' then Some (JFloat w)
      else number_literal w)"

subsection \<open>Tokens\<close>

datatype token = TLBrace | TRBrace | TLBracket | TRBracket | TColon | TComma | TValue json

definition punctuation :: "char \<Rightarrow> token option" where
  "punctuation c =
     (if c = CHR ''{'' then Some TLBrace
      else if c = CHR ''}'' then Some TRBrace
      else if c = CHR ''['' then Some TLBracket
      else if c = CHR '']'' then Some TRBracket
      else if c = CHR '':'' then Some TColon
      else if c = CHR '','' then Some TComma
      else None)"

definition unescape :: "char \<Rightarrow> char option" where
  "unescape c =
     (if c = CHR 0x22 \<or> c = CHR 0x5C \<or> c = CHR ''/'' then Some c
      else if c = CHR ''b'' then Some (CHR 0x08)
      else if c = CHR ''f'' then Some (CHR 0x0C)
      else if c = CHR ''n'' then Some (CHR 0x0A)
      else if c = CHR ''r'' then Some (CHR 0x0D)
      else if c = CHR ''t'' then Some (CHR 0x09)
      else None)"

definition hex_value :: "char \<Rightarrow> nat option" where
  "hex_value c =
     (let n = (of_char c :: nat) in
      if 48 \<le> n \<and> n \<le> 57 then Some (n - 48)
      else if 65 \<le> n \<and> n \<le> 70 then Some (n - 55)
      else if 97 \<le> n \<and> n \<le> 102 then Some (n - 87)
      else None)"

datatype lexer = LIdle | LWord string | LStr string | LEsc string | LHex string "nat list"

definition emit :: "token \<Rightarrow> token list option \<Rightarrow> token list option" where
  "emit t r = map_option (\<lambda>ts. t # ts) r"

fun tokenize :: "lexer \<Rightarrow> string \<Rightarrow> token list option" where
  "tokenize LIdle [] = Some []"
| "tokenize (LWord w) [] = map_option (\<lambda>v. [TValue v]) (scalar (rev w))"
| "tokenize (LStr s) [] = None"
| "tokenize (LEsc s) [] = None"
| "tokenize (LHex s h) [] = None"
| "tokenize LIdle (c # cs) =
     (if is_whitespace c then tokenize LIdle cs
      else if c = CHR 0x22 then tokenize (LStr []) cs
      else if is_word_char c then tokenize (LWord [c]) cs
      else (case punctuation c of None \<Rightarrow> None | Some t \<Rightarrow> emit t (tokenize LIdle cs)))"
| "tokenize (LWord w) (c # cs) =
     (if is_word_char c then tokenize (LWord (c # w)) cs
      else
        (case scalar (rev w) of
           None \<Rightarrow> None
         | Some v \<Rightarrow>
             if is_whitespace c then emit (TValue v) (tokenize LIdle cs)
             else (case punctuation c of
                     None \<Rightarrow> None
                   | Some t \<Rightarrow> emit (TValue v) (emit t (tokenize LIdle cs)))))"
| "tokenize (LStr s) (c # cs) =
     (if c = CHR 0x22 then emit (TValue (JString (rev s))) (tokenize LIdle cs)
      else if c = CHR 0x5C then tokenize (LEsc s) cs
      else if (of_char c :: nat) < 32 then None
      else tokenize (LStr (c # s)) cs)"
| "tokenize (LEsc s) (c # cs) =
     (if c = CHR ''u'' then tokenize (LHex s []) cs
      else (case unescape c of None \<Rightarrow> None | Some x \<Rightarrow> tokenize (LStr (x # s)) cs))"
| "tokenize (LHex s h) (c # cs) =
     (case hex_value c of
        None \<Rightarrow> None
      | Some d \<Rightarrow>
          if length h < 3 then tokenize (LHex s (d # h)) cs
          else
            (let n = foldl (\<lambda>a x. 16 * a + x) 0 (rev (d # h)) in
             if n < 256 then tokenize (LStr (char_of n # s)) cs else None))"

subsection \<open>Values from tokens, with a stack of open containers\<close>

datatype frame = FArray "json list" | FObject "(string \<times> json) list"
  | FMember "(string \<times> json) list" string

datatype mode = MValue | MFirstElement | MFirstKey | MKey | MColon | MAfter | MDone json

definition complete :: "json \<Rightarrow> frame list \<Rightarrow> (mode \<times> frame list) option" where
  "complete v stack =
     (case stack of
        [] \<Rightarrow> Some (MDone v, [])
      | FArray xs # st \<Rightarrow> Some (MAfter, FArray (v # xs) # st)
      | FMember kvs k # st \<Rightarrow> Some (MAfter, FObject (AList.update k v kvs) # st)
      | FObject kvs # st \<Rightarrow> None)"

definition start_value :: "token \<Rightarrow> frame list \<Rightarrow> (mode \<times> frame list) option" where
  "start_value t stack =
     (case t of
        TValue v \<Rightarrow> complete v stack
      | TLBracket \<Rightarrow> Some (MFirstElement, FArray [] # stack)
      | TLBrace \<Rightarrow> Some (MFirstKey, FObject [] # stack)
      | _ \<Rightarrow> None)"

definition start_key :: "token \<Rightarrow> frame list \<Rightarrow> (mode \<times> frame list) option" where
  "start_key t stack =
     (case (t, stack) of
        (TValue (JString k), FObject kvs # st) \<Rightarrow> Some (MColon, FMember kvs k # st)
      | _ \<Rightarrow> None)"

fun step :: "mode \<Rightarrow> frame list \<Rightarrow> token \<Rightarrow> (mode \<times> frame list) option" where
  "step MValue stack t = start_value t stack"
| "step MFirstElement stack t =
     (case (t, stack) of
        (TRBracket, FArray xs # st) \<Rightarrow> complete (JArray []) st
      | _ \<Rightarrow> start_value t stack)"
| "step MFirstKey stack t =
     (case (t, stack) of
        (TRBrace, FObject kvs # st) \<Rightarrow> complete (JObject []) st
      | _ \<Rightarrow> start_key t stack)"
| "step MKey stack t = start_key t stack"
| "step MColon stack t = (case t of TColon \<Rightarrow> Some (MValue, stack) | _ \<Rightarrow> None)"
| "step MAfter stack t =
     (case (t, stack) of
        (TComma, FArray xs # st) \<Rightarrow> Some (MValue, stack)
      | (TComma, FObject kvs # st) \<Rightarrow> Some (MKey, stack)
      | (TRBracket, FArray xs # st) \<Rightarrow> complete (JArray (rev xs)) st
      | (TRBrace, FObject kvs # st) \<Rightarrow> complete (JObject kvs) st
      | _ \<Rightarrow> None)"
| "step (MDone v) stack t = None"

fun parse_tokens :: "mode \<Rightarrow> frame list \<Rightarrow> token list \<Rightarrow> json option" where
  "parse_tokens m stack [] = (case m of MDone v \<Rightarrow> Some v | _ \<Rightarrow> None)"
| "parse_tokens m stack (t # ts) =
     (case step m stack t of
        None \<Rightarrow> None
      | Some (m', stack') \<Rightarrow> parse_tokens m' stack' ts)"

definition json_loads :: loads where
  "json_loads s =
     (if \<not> list_all (\<lambda>c. (of_char c :: nat) < 128) s then Inl UnicodeDecodeError
      else
        (case tokenize LIdle s of
           None \<Rightarrow> Inl JSONDecodeError
         | Some ts \<Rightarrow>
             (case parse_tokens MValue [] ts of
                None \<Rightarrow> Inl JSONDecodeError
              | Some v \<Rightarrow> Inr v)))"

section \<open>The kind table of the specification\<close>

text \<open>
  The fixed table of the specification, from the error identifier to the kind of service
  exception: six names, compared as they are written. It is stated apart from the chain of
  comparisons in \<^verbatim>\<open>parse_exception\<close> and from the namespace lookup in
  \<^verbatim>\<open>_parse_event_exception\<close>, to compare both with it.
\<close>

definition kind_table :: "string \<rightharpoonup> (json \<Rightarrow> service_exception)" where
  "kind_table = map_of
     [(''BadRequestException'', BadRequestException),
      (''ConflictException'', ConflictException),
      (''InternalFailureException'', InternalFailureException),
      (''LimitExceededException'', LimitExceededException),
      (''ServiceUnavailableException'', ServiceUnavailableException),
      (''SerializationException'', SerializationException)]"

text \<open>
  The exception that the specification gives for an exception frame: the kind that the
  table has for the value of the \<^verbatim>\<open>:exception-type\<close> header,
  \<^verbatim>\<open>ServiceException\<close> itself when the table has none or the header is absent; and
  the message of the payload, which is its \<^verbatim>\<open>Message\<close> value when the payload
  decodes to an object with that key, and the generic message otherwise.
\<close>

definition event_exception_kind :: "header_value option \<Rightarrow> json \<Rightarrow> service_exception" where
  "event_exception_kind exception_type =
     (case exception_type of
        Some (HStr name) \<Rightarrow>
          (case kind_table name of Some kind \<Rightarrow> kind | None \<Rightarrow> ServiceException)
      | _ \<Rightarrow> ServiceException)"

definition event_exception_message :: "exn + json \<Rightarrow> json" where
  "event_exception_message decoded =
     (case decoded of
        Inr (JObject d) \<Rightarrow>
          dict_get d ''Message'' (JString ''An unknown service exception occured'')
      | _ \<Rightarrow> JString ''An unknown service exception occured'')"

text \<open>
  The kinds of a service exception in the data model of the specification, and the two
  things the classification fixes: the kind and the message. The base class and
  \<^verbatim>\<open>UnknownServiceException\<close> both stand for the kind \<open>Unknown\<close>.
\<close>

datatype kind =
  BadRequest | Conflict | InternalFailure | LimitExceeded | ServiceUnavailable
  | Serialization | Unknown

fun kind_of :: "service_exception \<Rightarrow> kind" where
  "kind_of (ServiceException m) = Unknown"
| "kind_of (BadRequestException m) = BadRequest"
| "kind_of (ConflictException m) = Conflict"
| "kind_of (InternalFailureException m) = InternalFailure"
| "kind_of (LimitExceededException m) = LimitExceeded"
| "kind_of (ServiceUnavailableException m) = ServiceUnavailable"
| "kind_of (SerializationException m) = Serialization"
| "kind_of (UnknownServiceException status code m) = Unknown"

fun message_of :: "service_exception \<Rightarrow> json" where
  "message_of (ServiceException m) = m"
| "message_of (BadRequestException m) = m"
| "message_of (ConflictException m) = m"
| "message_of (InternalFailureException m) = m"
| "message_of (LimitExceededException m) = m"
| "message_of (ServiceUnavailableException m) = m"
| "message_of (SerializationException m) = m"
| "message_of (UnknownServiceException status code m) = m"

text \<open>
  The HTTP path returns its exception and the dispatcher raises its own: they run the same
  classification when both are service exceptions of one kind with one message.
\<close>

definition same_classification :: "exn + service_exception \<Rightarrow> exn + BaseEvent option \<Rightarrow> bool" where
  "same_classification returned dispatched =
     (case (returned, dispatched) of
        (Inr a, Inl (Service b)) \<Rightarrow> kind_of a = kind_of b \<and> message_of a = message_of b
      | _ \<Rightarrow> False)"

section \<open>Payloads of the shape the parser expects\<close>





definition field :: "(string \<times> json) list \<Rightarrow> string \<Rightarrow> json" where
  "field d k = dict_get d k JNull"







section \<open>Sequencing and splitting\<close>

lemma bind_Inr [simp]: "bind (Inr x) f = f x"
  by (simp add: bind_def)

lemma bind_Inl [simp]: "bind (Inl e) f = Inl e"
  by (simp add: bind_def)

text \<open>
  The first field of \<^verbatim>\<open>s.split(sep)\<close> is the part of \<open>s\<close> before the first
  separator, and the whole of \<open>s\<close> when there is none; the list is never empty.
\<close>

lemma split_from_head:
  "\<exists>rest. split_from acc sep s = (rev acc @ takeWhile (\<lambda>c. c \<noteq> sep) s) # rest"
proof (induction s arbitrary: acc)
  case Nil
  then show ?case by simp
next
  case (Cons c cs)
  show ?case
  proof (cases "c = sep")
    case True
    then show ?thesis by simp
  next
    case False
    with Cons [of "c # acc"] show ?thesis by simp
  qed
qed

lemma first_str_split: "first (str_split s sep) = Inr (takeWhile (\<lambda>c. c \<noteq> sep) s)"
proof -
  obtain rest where "split_from [] sep s = takeWhile (\<lambda>c. c \<noteq> sep) s # rest"
    using split_from_head [of "[]" sep s] by auto
  then show ?thesis
    by (simp add: first_def str_split_def)
qed

lemma get_error_code_eq:
  "get_error_code r =
     Inr (case Response.headers r ''x-amzn-errortype'' of
            None \<Rightarrow> ''Unknown''
          | Some v \<Rightarrow> takeWhile (\<lambda>c. c \<noteq> CHR '':'') v)"
  by (simp add: get_error_code_def first_str_split split: option.splits)

section \<open>The two lookups by name\<close>

lemma kind_table_simps:
  "kind_table name =
     (if name = ''BadRequestException'' then Some BadRequestException
      else if name = ''ConflictException'' then Some ConflictException
      else if name = ''InternalFailureException'' then Some InternalFailureException
      else if name = ''LimitExceededException'' then Some LimitExceededException
      else if name = ''ServiceUnavailableException'' then Some ServiceUnavailableException
      else if name = ''SerializationException'' then Some SerializationException
      else None)"
  unfolding kind_table_def map_of.simps fst_conv snd_conv fun_upd_apply
  by (simp only: if_cancel split: if_splits)

text \<open>
  The names that the sources fix in the namespace of the module, and the other names.
\<close>

lemma exception_name_cases:
  obtains (base) "name = ''ServiceException''"
    | (bad_request) "name = ''BadRequestException''"
    | (conflict) "name = ''ConflictException''"
    | (internal_failure) "name = ''InternalFailureException''"
    | (limit_exceeded) "name = ''LimitExceededException''"
    | (service_unavailable) "name = ''ServiceUnavailableException''"
    | (serialization) "name = ''SerializationException''"
    | (other) "name \<noteq> ''ServiceException''" "name \<noteq> ''BadRequestException''"
        "name \<noteq> ''ConflictException''" "name \<noteq> ''InternalFailureException''"
        "name \<noteq> ''LimitExceededException''" "name \<noteq> ''ServiceUnavailableException''"
        "name \<noteq> ''SerializationException''"
  by blast

lemma transcribe_exceptions_other:
  assumes "name \<noteq> ''ServiceException''" "name \<noteq> ''BadRequestException''"
    "name \<noteq> ''ConflictException''" "name \<noteq> ''InternalFailureException''"
    "name \<noteq> ''LimitExceededException''" "name \<noteq> ''ServiceUnavailableException''"
    "name \<noteq> ''SerializationException''"
  shows "transcribe_exceptions others name = others name"
  using assms by (simp add: transcribe_exceptions_def)

lemma kind_table_other:
  assumes "name \<noteq> ''BadRequestException''"
    "name \<noteq> ''ConflictException''" "name \<noteq> ''InternalFailureException''"
    "name \<noteq> ''LimitExceededException''" "name \<noteq> ''ServiceUnavailableException''"
    "name \<noteq> ''SerializationException''"
  shows "kind_table name = None"
  using assms by (simp add: kind_table_def)

text \<open>
  The lookup in the namespace of the module agrees with the kind table on the names of the
  table, and gives the base class for \<^verbatim>\<open>ServiceException\<close> and for every name that
  is not an attribute of the module.
\<close>

lemma getattr_exceptions_kind:
  assumes "kind_table name \<noteq> None \<or> name = ''ServiceException'' \<or> others name = None"
  shows "getattr_exceptions others (HStr name) =
           Inr (\<lambda>m. Inr (Service (event_exception_kind (Some (HStr name)) m)))"
proof (cases name rule: exception_name_cases)
  case other
  then have lookup: "transcribe_exceptions others name = others name"
    by (rule transcribe_exceptions_other)
  from other(2-) have none: "kind_table name = None"
    by (rule kind_table_other)
  from assms none other(1) have "others name = None"
    by simp
  with lookup none show ?thesis
    by (simp add: event_exception_kind_def)
qed (simp_all add: transcribe_exceptions_def kind_table_def event_exception_kind_def)


lemma getattr_exceptions_default:
  "getattr_exceptions others (HStr ''ServiceException'') =
     Inr (\<lambda>m. Inr (Service (event_exception_kind None m)))"
  by (simp add: transcribe_exceptions_def event_exception_kind_def)

lemma raw_body_message:
  assumes "(\<exists>e. decoded = Inl e \<and> is_ValueError e) \<or> (\<exists>d. decoded = Inr (JObject d))"
  shows "bind (case decoded of
                 Inl e \<Rightarrow> if is_ValueError e then Inr (JObject []) else Inl e
               | Inr raw_body \<Rightarrow> Inr raw_body)
           (\<lambda>raw_body. bind (py_get_default raw_body ''Message''
                               (JString ''An unknown service exception occured'')) f)
         = f (event_exception_message decoded)"
  using assms
  by (auto simp: event_exception_message_def dict_get_def)

lemma parse_event_exception_eq:
  assumes et: "raw_event.headers ev '':exception-type'' = None \<or>
      (\<exists>name. raw_event.headers ev '':exception-type'' = Some (HStr name) \<and>
         (kind_table name \<noteq> None \<or> name = ''ServiceException'' \<or> others name = None))"
    and body: "(\<exists>e. loads (raw_event.payload ev) = Inl e \<and> is_ValueError e) \<or>
      (\<exists>d. loads (raw_event.payload ev) = Inr (JObject d))"
  shows "parse_event_exception loads others ev =
           Inr (Service (event_exception_kind (raw_event.headers ev '':exception-type'')
                  (event_exception_message (loads (raw_event.payload ev)))))"
proof -
  from et have cls: "getattr_exceptions others
       (case raw_event.headers ev '':exception-type'' of
          None \<Rightarrow> HStr ''ServiceException'' | Some v \<Rightarrow> v) =
       Inr (\<lambda>m. Inr (Service
              (event_exception_kind (raw_event.headers ev '':exception-type'') m)))"
  proof
    assume "raw_event.headers ev '':exception-type'' = None"
    then show ?thesis
      by (simp only: option.case getattr_exceptions_default)
  next
    assume "\<exists>name. raw_event.headers ev '':exception-type'' = Some (HStr name) \<and>
         (kind_table name \<noteq> None \<or> name = ''ServiceException'' \<or> others name = None)"
    then obtain name where name: "raw_event.headers ev '':exception-type'' = Some (HStr name)"
      and known: "kind_table name \<noteq> None \<or> name = ''ServiceException'' \<or> others name = None"
      by blast
    from known have "getattr_exceptions others (HStr name) =
        Inr (\<lambda>m. Inr (Service (event_exception_kind (Some (HStr name)) m)))"
      by (rule getattr_exceptions_kind)
    with name show ?thesis
      by (simp only: option.case)
  qed
  show ?thesis
    unfolding parse_event_exception_def Let_def cls bind_Inr
    by (rule raw_body_message [OF body])
qed

text \<open>
  The message of a body that is not JSON, and of a body that is a JSON object: the value of
  \<^verbatim>\<open>Message\<close>, else that of \<^verbatim>\<open>message\<close>, else the generic message.
\<close>

lemma get_error_message_not_json:
  assumes "loads body_bytes = Inl JSONDecodeError"
  shows "get_error_message loads body_bytes =
           Inr (JString ''An unknown error was returned by the service'')"
  using assms by (simp add: get_error_message_def)

lemma get_error_message_object:
  assumes "loads body_bytes = Inr (JObject d)"
  shows "get_error_message loads body_bytes =
           Inr (dict_get d ''Message''
                  (dict_get d ''message''
                     (JString ''An unknown error was returned by the service'')))"
  using assms by (auto simp: get_error_message_def dict_get_def)

lemma get_error_message_Message:
  assumes "loads body_bytes = Inr (JObject d)" and "map_of d ''Message'' = Some m"
  shows "get_error_message loads body_bytes = Inr m"
  using assms by (simp add: get_error_message_def)

text \<open>
  The kind and the message that the HTTP path and the dispatcher give for one name.
\<close>

lemma kind_table_no_colon: "CHR '':'' \<in> set name \<Longrightarrow> kind_table name = None"
  by (cases name rule: exception_name_cases) (auto simp: kind_table_other)

lemma kind_of_table:
  "kind_of (case kind_table name of
              Some kind \<Rightarrow> kind m
            | None \<Rightarrow> UnknownServiceException status code m) =
   kind_of (event_exception_kind (Some (HStr name)) m)"
  by (cases name rule: exception_name_cases)
     (simp_all add: kind_table_other event_exception_kind_def, simp_all add: kind_table_def)

lemma message_of_table:
  "message_of (case kind_table name of
              Some kind \<Rightarrow> kind m
            | None \<Rightarrow> UnknownServiceException status code m) = m"
  by (cases name rule: exception_name_cases)
     (simp_all add: kind_table_other, simp_all add: kind_table_def)

lemma message_of_event_exception_kind: "message_of (event_exception_kind h m) = m"
proof (cases h)
  case None
  then show ?thesis by (simp add: event_exception_kind_def)
next
  case (Some v)
  then show ?thesis
  proof (cases v)
    case (HStr name)
    have "message_of ((case kind_table name of Some kind \<Rightarrow> kind | None \<Rightarrow> ServiceException) m) = m"
      by (cases name rule: exception_name_cases)
         (simp_all add: kind_table_other, simp_all add: kind_table_def)
    with Some HStr show ?thesis
      by (simp add: event_exception_kind_def)
  qed (simp_all add: event_exception_kind_def)
qed

lemma takeWhile_no_colon:
  "CHR '':'' \<notin> set s \<Longrightarrow> takeWhile (\<lambda>c. c \<noteq> CHR '':'') s = s"
  by (induction s) auto

lemma kind_of_cut:
  assumes "CHR '':'' \<notin> set name \<or>
    kind_table (takeWhile (\<lambda>c. c \<noteq> CHR '':'') name) = None"
  shows "kind_of (case kind_table (takeWhile (\<lambda>c. c \<noteq> CHR '':'') name) of
                    Some kind \<Rightarrow> kind m
                  | None \<Rightarrow> UnknownServiceException status code m) =
         kind_of (event_exception_kind (Some (HStr name)) m)"
proof (cases "CHR '':'' \<in> set name")
  case True
  with assms have "kind_table (takeWhile (\<lambda>c. c \<noteq> CHR '':'') name) = None"
    by simp
  moreover from True have "kind_table name = None"
    by (rule kind_table_no_colon)
  ultimately show ?thesis
    by (simp add: event_exception_kind_def)
next
  case False
  then have "takeWhile (\<lambda>c. c \<noteq> CHR '':'') name = name"
    by (rule takeWhile_no_colon)
  then show ?thesis
    by (simp only: kind_of_table)
qed

section \<open>The nested parsers on payloads of the expected shape\<close>

text \<open>
  On an object, \<^verbatim>\<open>get\<close> returns: \<open>field d k\<close> is the value of the key
  \<open>k\<close>, and \<^verbatim>\<open>None\<close> when the object has no such key.
\<close>

lemma py_get_object [simp]: "py_get (JObject d) k = Inr (field d k)"
  by (simp add: py_get_def field_def)



























section \<open>The HTTP error path\<close>

subsection \<open>The classification, given the message\<close>

text \<open>
  \<^verbatim>\<open>parse_exception\<close> takes the error code from the \<^verbatim>\<open>x-amzn-errortype\<close>
  header, cut at its first colon (and \<^verbatim>\<open>Unknown\<close> when the header is absent), looks
  it up in the kind table as it is written, and returns the kind found there with the
  extracted message; a code that is not in the table gives
  \<^verbatim>\<open>UnknownServiceException\<close> with the status code of the response, the code as it
  was cut and the message. The message is the outcome of \<^verbatim>\<open>_get_error_message\<close> on
  the body: where that call raises, \<open>bind\<close> passes the exception on, and
  \<^verbatim>\<open>parse_exception\<close> returns nothing.
\<close>

lemma parse_exception_classification:
  "parse_exception loads http_response body_bytes =
     bind (get_error_message loads body_bytes) (\<lambda>error_message.
       let error_code =
             (case Response.headers http_response ''x-amzn-errortype'' of
                None \<Rightarrow> ''Unknown''
              | Some v \<Rightarrow> takeWhile (\<lambda>c. c \<noteq> CHR '':'') v)
       in Inr (case kind_table error_code of
                 Some kind \<Rightarrow> kind error_message
               | None \<Rightarrow>
                   UnknownServiceException (status_code http_response) error_code
                     error_message))"
  by (cases "get_error_message loads body_bytes")
     (simp_all add: parse_exception_def get_error_code_eq kind_table_def Let_def)

text \<open>
  An instance: a code with a colon suffix that is not in the table, and a body with a
  lower-case \<^verbatim>\<open>message\<close> key.
\<close>

lemma parse_exception_classification_example:
  \<open>parse_exception json_loads
     \<lparr>status_code = 400,
      headers = [''x-amzn-errortype'' \<mapsto> ''ThrottlingException:http://internal/''] \<rparr>
     ''{"message":"slow down"}'' =
   Inr (UnknownServiceException 400 ''ThrottlingException'' (JString ''slow down''))\<close>
proof -
  have m: \<open>get_error_message json_loads ''{"message":"slow down"}'' =
      Inr (JString ''slow down'')\<close>
    by code_simp
  show ?thesis
    using parse_exception_classification [of json_loads
        "\<lparr>status_code = 400,
          headers = [''x-amzn-errortype'' \<mapsto> ''ThrottlingException:http://internal/''] \<rparr>"]
    by (simp add: m kind_table_def)
qed

text \<open>
  Without an \<^verbatim>\<open>x-amzn-errortype\<close> header the error code is the literal
  \<^verbatim>\<open>Unknown\<close>, and the message is the generic one for a body that is not JSON, and
  for a JSON object the value of its \<^verbatim>\<open>Message\<close> key, else of its
  \<^verbatim>\<open>message\<close> key, else the generic message.
\<close>

lemma parse_exception_without_errortype:
  assumes "Response.headers http_response ''x-amzn-errortype'' = None"
  shows "parse_exception loads http_response body_bytes =
           bind (get_error_message loads body_bytes) (\<lambda>error_message.
             Inr (UnknownServiceException (status_code http_response) ''Unknown''
                    error_message))
    \<and> (loads body_bytes = Inl JSONDecodeError \<longrightarrow>
         parse_exception loads http_response body_bytes =
           Inr (UnknownServiceException (status_code http_response) ''Unknown''
                  (JString ''An unknown error was returned by the service'')))
    \<and> (\<forall>d. loads body_bytes = Inr (JObject d) \<longrightarrow>
         parse_exception loads http_response body_bytes =
           Inr (UnknownServiceException (status_code http_response) ''Unknown''
                  (dict_get d ''Message''
                     (dict_get d ''message''
                        (JString ''An unknown error was returned by the service'')))))"
proof -
  have eq: "parse_exception loads http_response body_bytes =
      bind (get_error_message loads body_bytes) (\<lambda>error_message.
        Inr (UnknownServiceException (status_code http_response) ''Unknown''
               error_message))"
    using assms
    by (cases "get_error_message loads body_bytes")
       (simp_all add: parse_exception_def get_error_code_def)
  show ?thesis
  proof (intro conjI impI allI)
    show "parse_exception loads http_response body_bytes =
      bind (get_error_message loads body_bytes) (\<lambda>error_message.
        Inr (UnknownServiceException (status_code http_response) ''Unknown''
               error_message))"
      by (rule eq)
  next
    assume "loads body_bytes = Inl JSONDecodeError"
    then show "parse_exception loads http_response body_bytes =
        Inr (UnknownServiceException (status_code http_response) ''Unknown''
               (JString ''An unknown error was returned by the service''))"
      by (simp add: eq get_error_message_not_json)
  next
    fix d
    assume "loads body_bytes = Inr (JObject d)"
    then show "parse_exception loads http_response body_bytes =
        Inr (UnknownServiceException (status_code http_response) ''Unknown''
               (dict_get d ''Message''
                  (dict_get d ''message''
                     (JString ''An unknown error was returned by the service''))))"
      by (simp add: eq get_error_message_object)
  qed
qed

text \<open>An instance: a gateway answers with an HTML page, which is not JSON.\<close>

lemma parse_exception_without_errortype_example:
  \<open>Response.headers \<lparr>status_code = 502, headers = [''content-type'' \<mapsto> ''text/html''] \<rparr>
       ''x-amzn-errortype'' = None \<and>
   parse_exception json_loads
     \<lparr>status_code = 502, headers = [''content-type'' \<mapsto> ''text/html''] \<rparr>
     ''<html>Bad Gateway</html>'' =
   Inr (UnknownServiceException 502 ''Unknown''
          (JString ''An unknown error was returned by the service''))\<close>
proof -
  have h: "Response.headers
      \<lparr>status_code = 502, headers = [''content-type'' \<mapsto> ''text/html''] \<rparr>
      ''x-amzn-errortype'' = None"
    by simp
  have m: "get_error_message json_loads ''<html>Bad Gateway</html>'' =
      Inr (JString ''An unknown error was returned by the service'')"
    by code_simp
  show ?thesis
    using parse_exception_without_errortype [OF h, of json_loads "''<html>Bad Gateway</html>''"]
    by (simp add: m)
qed

subsection \<open>Bodies on which the message extraction raises\<close>

text \<open>
  Claim C5. The message extraction is meant never to raise. It catches
  \<^verbatim>\<open>JSONDecodeError\<close> only, and it tests \<^verbatim>\<open>"Message" in parsed_body\<close> on
  whatever the body decodes to. The body \<^verbatim>\<open>null\<close> is valid JSON and decodes to
  \<^verbatim>\<open>None\<close>, on which the membership test raises \<^verbatim>\<open>TypeError\<close>; the body
  \<^verbatim>\<open>"Message"\<close> decodes to a string, which passes the membership test (a substring
  test) and cannot be indexed by a string. A body of the single byte \<^verbatim>\<open>FF\<close> is not
  UTF-8: \<^verbatim>\<open>json.loads\<close> raises \<^verbatim>\<open>UnicodeDecodeError\<close>, which is no
  \<^verbatim>\<open>JSONDecodeError\<close>; the dispatcher catches \<^verbatim>\<open>ValueError\<close> and gives the
  generic message for the same bytes.
\<close>

theorem get_error_message_raises:
  \<open>json_loads ''null'' = Inr JNull \<and>
   get_error_message json_loads ''null'' = Inl TypeError \<and>
   json_loads ''"Message"'' = Inr (JString ''Message'') \<and>
   get_error_message json_loads ''"Message"'' = Inl TypeError \<and>
   json_loads [CHR 0xFF] = Inl UnicodeDecodeError \<and>
   get_error_message json_loads [CHR 0xFF] = Inl UnicodeDecodeError \<and>
   parse_event_exception json_loads Map.empty \<lparr>headers = Map.empty, payload = [CHR 0xFF]\<rparr> =
     Inr (Service (ServiceException (JString ''An unknown service exception occured'')))\<close>
  by code_simp

text \<open>
  Claim C4. \<^verbatim>\<open>parse_exception\<close> is to return the exception that the kind table
  gives for the error code, for every response and every body. On the body
  \<^verbatim>\<open>null\<close> it returns none: the response names \<^verbatim>\<open>BadRequestException\<close>,
  and the \<^verbatim>\<open>TypeError\<close> of the message extraction reaches the caller.
\<close>

theorem parse_exception_raises_on_match:
  \<open>parse_exception json_loads
     \<lparr>status_code = 400, headers = [''x-amzn-errortype'' \<mapsto> ''BadRequestException''] \<rparr>
     ''null'' = Inl TypeError\<close>
  by code_simp

text \<open>
  Claim C10. A response without an \<^verbatim>\<open>x-amzn-errortype\<close> header is to give
  \<^verbatim>\<open>UnknownServiceException\<close> with the error code \<^verbatim>\<open>Unknown\<close>, the status
  code and the message of the body or the generic message. On the body \<^verbatim>\<open>null\<close>
  there is neither: the \<^verbatim>\<open>TypeError\<close> of the message extraction reaches the
  caller.
\<close>

theorem parse_exception_raises_without_errortype:
  \<open>Response.headers \<lparr>status_code = 500, headers = Map.empty\<rparr> ''x-amzn-errortype'' = None \<and>
   parse_exception json_loads \<lparr>status_code = 500, headers = Map.empty\<rparr> ''null'' =
     Inl TypeError\<close>
  by code_simp

section \<open>The dispatcher\<close>

text \<open>
  Claim C9. A frame without a \<^verbatim>\<open>:message-type\<close> header, or with one whose value
  is none of the strings \<^verbatim>\<open>error\<close>, \<^verbatim>\<open>exception\<close> and \<^verbatim>\<open>event\<close>,
  gives \<^verbatim>\<open>None\<close>: \<^verbatim>\<open>parse\<close> returns without reading the payload.
\<close>

theorem parse_other_message_type:
  assumes "raw_event.headers ev '':message-type'' \<noteq> Some (HStr ''error'')"
    and "raw_event.headers ev '':message-type'' \<noteq> Some (HStr ''exception'')"
    and "raw_event.headers ev '':message-type'' \<noteq> Some (HStr ''event'')"
  shows "parse loads others ev = Inr None"
  using assms by (simp add: parse_def)

text \<open>
  Two instances: no header at all, and a header that differs from \<^verbatim>\<open>event\<close> in
  case only. The payload is not JSON in both.
\<close>

theorem parse_other_message_type_witness:
  "parse json_loads Map.empty \<lparr>headers = Map.empty, payload = ''not json''\<rparr> = Inr None \<and>
   parse json_loads Map.empty
     \<lparr>headers = ['':message-type'' \<mapsto> HStr ''Event''], payload = ''not json''\<rparr> = Inr None"
proof -
  have "parse json_loads Map.empty \<lparr>headers = Map.empty, payload = ''not json''\<rparr> = Inr None"
    using parse_other_message_type
      [of "\<lparr>headers = Map.empty, payload = ''not json''\<rparr>" json_loads Map.empty]
    by simp
  moreover have "parse json_loads Map.empty
      \<lparr>headers = ['':message-type'' \<mapsto> HStr ''Event''], payload = ''not json''\<rparr> = Inr None"
    using parse_other_message_type
      [of "\<lparr>headers = ['':message-type'' \<mapsto> HStr ''Event''], payload = ''not json''\<rparr>"
          json_loads Map.empty]
    by simp
  ultimately show ?thesis by simp
qed

text \<open>
  Claim C6. A frame with message type \<^verbatim>\<open>event\<close> and event type
  \<^verbatim>\<open>TranscriptEvent\<close> whose payload is the JSON
  \<^verbatim>\<open>{"Transcript":{"Results":[]}}\<close> gives one \<^verbatim>\<open>TranscriptEvent\<close> whose
  transcript has the empty list of results.
\<close>

theorem parse_transcript_event_empty_results:
  assumes "raw_event.headers ev '':message-type'' = Some (HStr ''event'')"
    and "raw_event.headers ev '':event-type'' = Some (HStr ''TranscriptEvent'')"
    and "loads (raw_event.payload ev) =
           Inr (JObject [(''Transcript'', JObject [(''Results'', JArray [])])])"
  shows "parse loads others ev = Inr (Some (TranscriptEvent \<lparr>results = []\<rparr>))"
  using assms
  by (simp add: parse_def parse_transcript_event_def parse_transcript_def
      parse_result_list_def list_comp_def py_get_def dict_get_def)

text \<open>The instance with the payload bytes as they are written in the claim.\<close>

theorem parse_transcript_event_empty_results_witness:
  \<open>json_loads ''{"Transcript":{"Results":[]}}'' =
     Inr (JObject [(''Transcript'', JObject [(''Results'', JArray [])])]) \<and>
   parse json_loads Map.empty
     \<lparr>headers = ['':message-type'' \<mapsto> HStr ''event'',
                 '':event-type'' \<mapsto> HStr ''TranscriptEvent''],
      payload = ''{"Transcript":{"Results":[]}}''\<rparr> =
   Inr (Some (TranscriptEvent \<lparr>results = []\<rparr>))\<close>
proof -
  have h: \<open>json_loads ''{"Transcript":{"Results":[]}}'' =
      Inr (JObject [(''Transcript'', JObject [(''Results'', JArray [])])])\<close>
    by code_simp
  show ?thesis
    using parse_transcript_event_empty_results
      [of \<open>\<lparr>headers = ['':message-type'' \<mapsto> HStr ''event'',
                        '':event-type'' \<mapsto> HStr ''TranscriptEvent''],
             payload = ''{"Transcript":{"Results":[]}}''\<rparr>\<close> json_loads Map.empty]
    by (simp add: h)
qed

text \<open>
  Claim C2, as stated, fails: \<^verbatim>\<open>parse\<close> decodes the payload of every
  \<^verbatim>\<open>event\<close> frame before it looks at the event type, so a frame of an unrecognized
  event type whose payload is not JSON (here the empty payload) raises
  \<^verbatim>\<open>JSONDecodeError\<close>.
\<close>

theorem parse_unknown_event_type_counterexample:
  \<open>parse json_loads Map.empty
     \<lparr>headers = ['':message-type'' \<mapsto> HStr ''event'',
                 '':event-type'' \<mapsto> HStr ''SessionSummaryEvent''],
      payload = []\<rparr> = Inl JSONDecodeError\<close>
  by code_simp

text \<open>
  Claim C2, amended. A frame with message type \<^verbatim>\<open>event\<close>, with an event type
  that is absent or not one of \<^verbatim>\<open>TranscriptEvent\<close>, \<^verbatim>\<open>UtteranceEvent\<close> and
  \<^verbatim>\<open>CategoryEvent\<close>, and with a payload that \<^verbatim>\<open>json.loads\<close> decodes, gives
  \<^verbatim>\<open>None\<close> and raises nothing.
\<close>

theorem parse_unknown_event_type:
  assumes "raw_event.headers ev '':message-type'' = Some (HStr ''event'')"
    and "raw_event.headers ev '':event-type'' \<noteq> Some (HStr ''TranscriptEvent'')"
    and "raw_event.headers ev '':event-type'' \<noteq> Some (HStr ''UtteranceEvent'')"
    and "raw_event.headers ev '':event-type'' \<noteq> Some (HStr ''CategoryEvent'')"
    and "loads (raw_event.payload ev) = Inr raw_body"
  shows "parse loads others ev = Inr None"
  using assms by (simp add: parse_def)

theorem parse_unknown_event_type_witness:
  \<open>json_loads ''{"Summary":{}}'' = Inr (JObject [(''Summary'', JObject [])]) \<and>
   parse json_loads Map.empty
     \<lparr>headers = ['':message-type'' \<mapsto> HStr ''event'',
                 '':event-type'' \<mapsto> HStr ''SessionSummaryEvent''],
      payload = ''{"Summary":{}}''\<rparr> = Inr None\<close>
proof -
  have h: \<open>json_loads ''{"Summary":{}}'' = Inr (JObject [(''Summary'', JObject [])])\<close>
    by code_simp
  show ?thesis
    using parse_unknown_event_type
      [of \<open>\<lparr>headers = ['':message-type'' \<mapsto> HStr ''event'',
                        '':event-type'' \<mapsto> HStr ''SessionSummaryEvent''],
             payload = ''{"Summary":{}}''\<rparr>\<close> json_loads
          "JObject [(''Summary'', JObject [])]" Map.empty]
    by (simp add: h)
qed

section \<open>Exception frames\<close>

text \<open>
  Claim C1, as stated, fails in two places. The class of the exception comes from the
  \<^verbatim>\<open>:exception-type\<close> header alone: with a payload that is not JSON the dispatcher
  raises the class the header names, here \<^verbatim>\<open>BadRequestException\<close>, with the generic
  message, not a fallback of kind Unknown. And a payload that is JSON but not an object,
  here \<^verbatim>\<open>null\<close>, makes \<^verbatim>\<open>raw_body.get\<close> raise \<^verbatim>\<open>AttributeError\<close>:
  no service exception is raised.
\<close>

theorem parse_raises_service_exception_counterexample:
  \<open>parse json_loads Map.empty
     \<lparr>headers = ['':message-type'' \<mapsto> HStr ''exception'',
                 '':exception-type'' \<mapsto> HStr ''BadRequestException''],
      payload = ''Service Unavailable''\<rparr> =
   Inl (Service (BadRequestException (JString ''An unknown service exception occured''))) \<and>
   parse json_loads Map.empty
     \<lparr>headers = ['':message-type'' \<mapsto> HStr ''exception'',
                 '':exception-type'' \<mapsto> HStr ''BadRequestException''],
      payload = ''null''\<rparr> =
   Inl AttributeError\<close>
  by code_simp

text \<open>
  Claim C1, amended. For a frame whose \<^verbatim>\<open>:message-type\<close> is \<^verbatim>\<open>error\<close> or
  \<^verbatim>\<open>exception\<close>, whose \<^verbatim>\<open>:exception-type\<close> header is absent or is a string
  that is a name of the kind table, \<^verbatim>\<open>ServiceException\<close>, or no attribute of the
  exceptions module, and whose payload is rejected by \<^verbatim>\<open>json.loads\<close> with a
  \<^verbatim>\<open>ValueError\<close> or decodes to an object, the dispatcher raises a service exception.
  Its class is the one the kind table has for the header value, and the base class
  \<^verbatim>\<open>ServiceException\<close> when the table has none or the header is absent. Its message
  is the \<^verbatim>\<open>Message\<close> value of the payload when the payload is an object with that
  key, and the generic message otherwise, whatever the class.
\<close>

theorem parse_raises_service_exception:
  assumes mt: "raw_event.headers ev '':message-type'' = Some (HStr ''error'') \<or>
      raw_event.headers ev '':message-type'' = Some (HStr ''exception'')"
    and et: "raw_event.headers ev '':exception-type'' = None \<or>
      (\<exists>name. raw_event.headers ev '':exception-type'' = Some (HStr name) \<and>
         (kind_table name \<noteq> None \<or> name = ''ServiceException'' \<or> others name = None))"
    and body: "(\<exists>e. loads (raw_event.payload ev) = Inl e \<and> is_ValueError e) \<or>
      (\<exists>d. loads (raw_event.payload ev) = Inr (JObject d))"
  shows "parse loads others ev =
           Inl (Service (event_exception_kind (raw_event.headers ev '':exception-type'')
                  (event_exception_message (loads (raw_event.payload ev)))))"
proof -
  have "parse loads others ev = bind (parse_event_exception loads others ev) Inl"
    using mt by (auto simp: parse_def)
  then show ?thesis
    by (simp only: parse_event_exception_eq
        [where ev = ev and loads = loads and others = others, OF et body] bind_Inr)
qed

text \<open>
  The example of the claim: \<^verbatim>\<open>BadRequestException\<close> with the payload
  \<^verbatim>\<open>{"Message":"bad input"}\<close>.
\<close>

theorem parse_raises_service_exception_witness:
  \<open>json_loads ''{"Message":"bad input"}'' = Inr (JObject [(''Message'', JString ''bad input'')]) \<and>
   parse json_loads Map.empty
     \<lparr>headers = ['':message-type'' \<mapsto> HStr ''exception'',
                 '':exception-type'' \<mapsto> HStr ''BadRequestException''],
      payload = ''{"Message":"bad input"}''\<rparr> =
   Inl (Service (BadRequestException (JString ''bad input'')))\<close>
proof -
  have h: \<open>json_loads ''{"Message":"bad input"}'' =
      Inr (JObject [(''Message'', JString ''bad input'')])\<close>
    by code_simp
  show ?thesis
    using parse_raises_service_exception
      [where ev = \<open>\<lparr>headers = ['':message-type'' \<mapsto> HStr ''exception'',
                               '':exception-type'' \<mapsto> HStr ''BadRequestException''],
                    payload = ''{"Message":"bad input"}''\<rparr>\<close>
         and loads = json_loads and others = Map.empty]
    by (simp add: h event_exception_kind_def event_exception_message_def kind_table_simps
        dict_get_def)
qed

text \<open>
  Claim C7, as stated, fails. The two paths take the message differently: without a
  \<^verbatim>\<open>Message\<close> key (here the body \<^verbatim>\<open>{}\<close>) the HTTP path answers
  \<^verbatim>\<open>An unknown error was returned by the service\<close> and the dispatcher
  \<^verbatim>\<open>An unknown service exception occured\<close>. And only the HTTP path cuts the
  identifier at a colon: \<^verbatim>\<open>BadRequestException:\<close> is a bad request there and an
  unknown name for the dispatcher.
\<close>

theorem same_classification_counterexample:
  \<open>parse_exception json_loads
     \<lparr>status_code = 400, headers = [''x-amzn-errortype'' \<mapsto> ''BadRequestException''] \<rparr>
     ''{}'' =
   Inr (BadRequestException (JString ''An unknown error was returned by the service'')) \<and>
   parse json_loads Map.empty
     \<lparr>headers = ['':message-type'' \<mapsto> HStr ''exception'',
                 '':exception-type'' \<mapsto> HStr ''BadRequestException''],
      payload = ''{}''\<rparr> =
   Inl (Service (BadRequestException (JString ''An unknown service exception occured''))) \<and>
   \<not> same_classification
     (parse_exception json_loads
        \<lparr>status_code = 400, headers = [''x-amzn-errortype'' \<mapsto> ''BadRequestException''] \<rparr>
        ''{}'')
     (parse json_loads Map.empty
        \<lparr>headers = ['':message-type'' \<mapsto> HStr ''exception'',
                    '':exception-type'' \<mapsto> HStr ''BadRequestException''],
         payload = ''{}''\<rparr>) \<and>
   \<not> same_classification
     (parse_exception json_loads
        \<lparr>status_code = 400, headers = [''x-amzn-errortype'' \<mapsto> ''BadRequestException:''] \<rparr>
        ''{"Message":"bad input"}'')
     (parse json_loads Map.empty
        \<lparr>headers = ['':message-type'' \<mapsto> HStr ''exception'',
                    '':exception-type'' \<mapsto> HStr ''BadRequestException:''],
         payload = ''{"Message":"bad input"}''\<rparr>)\<close>
  by code_simp

text \<open>
  Claim C7, amended. Take an identifier that has no colon, or whose part before the first
  colon is not a name of the kind table, and that is a name of the kind table,
  \<^verbatim>\<open>ServiceException\<close>, or no attribute of the exceptions module; and a body that
  decodes to an object with a \<^verbatim>\<open>Message\<close> key. Then the HTTP path (identifier in the
  \<^verbatim>\<open>x-amzn-errortype\<close> header) and the dispatcher (identifier in the
  \<^verbatim>\<open>:exception-type\<close> header of an exception frame with the body as payload) give
  service exceptions of the same kind, both with the \<^verbatim>\<open>Message\<close> value as message.
\<close>

theorem same_classification_on_messages:
  assumes code: "Response.headers http_response ''x-amzn-errortype'' = Some name"
    and mt: "raw_event.headers ev '':message-type'' = Some (HStr ''error'') \<or>
      raw_event.headers ev '':message-type'' = Some (HStr ''exception'')"
    and et: "raw_event.headers ev '':exception-type'' = Some (HStr name)"
    and cut: "CHR '':'' \<notin> set name \<or>
      kind_table (takeWhile (\<lambda>c. c \<noteq> CHR '':'') name) = None"
    and attr: "kind_table name \<noteq> None \<or> name = ''ServiceException'' \<or> others name = None"
    and payload: "raw_event.payload ev = body_bytes"
    and body: "loads body_bytes = Inr (JObject d)"
    and msg: "map_of d ''Message'' = Some m"
  shows "same_classification (parse_exception loads http_response body_bytes)
           (parse loads others ev)
         \<and> (\<exists>a b. parse_exception loads http_response body_bytes = Inr a \<and>
                   parse loads others ev = Inl (Service b) \<and>
                   message_of a = m \<and> message_of b = m)"
proof -
  let ?code = "takeWhile (\<lambda>c. c \<noteq> CHR '':'') name"
  have "parse_exception loads http_response body_bytes =
      bind (get_error_message loads body_bytes) (\<lambda>error_message.
        Inr (case kind_table ?code of
               Some kind \<Rightarrow> kind error_message
             | None \<Rightarrow> UnknownServiceException (status_code http_response) ?code
                 error_message))"
    by (cases "get_error_message loads body_bytes")
       (simp_all add: parse_exception_def get_error_code_eq code kind_table_simps)
  then have http: "parse_exception loads http_response body_bytes =
      Inr (case kind_table ?code of
             Some kind \<Rightarrow> kind m
           | None \<Rightarrow> UnknownServiceException (status_code http_response) ?code m)"
    by (simp add: get_error_message_Message [of loads body_bytes d m, OF body msg])
  have et': "raw_event.headers ev '':exception-type'' = None \<or>
      (\<exists>n. raw_event.headers ev '':exception-type'' = Some (HStr n) \<and>
         (kind_table n \<noteq> None \<or> n = ''ServiceException'' \<or> others n = None))"
    using et attr by simp
  have body': "(\<exists>e. loads (raw_event.payload ev) = Inl e \<and> is_ValueError e) \<or>
      (\<exists>d. loads (raw_event.payload ev) = Inr (JObject d))"
    using payload body by simp
  have "parse loads others ev = bind (parse_event_exception loads others ev) Inl"
    using mt by (auto simp: parse_def)
  then have stream: "parse loads others ev =
      Inl (Service (event_exception_kind (Some (HStr name)) m))"
    using parse_event_exception_eq
      [where ev = ev and loads = loads and others = others, OF et' body']
      et payload body msg
    by (simp add: event_exception_message_def dict_get_def)
  show ?thesis
    by (simp add: http stream same_classification_def kind_of_cut [OF cut] message_of_table
        message_of_event_exception_kind)
qed

text \<open>An instance: a conflict reported on both paths.\<close>

theorem same_classification_on_messages_witness:
  \<open>same_classification
     (parse_exception json_loads
        \<lparr>status_code = 409, headers = [''x-amzn-errortype'' \<mapsto> ''ConflictException''] \<rparr>
        ''{"Message":"A stream is already open"}'')
     (parse json_loads Map.empty
        \<lparr>headers = ['':message-type'' \<mapsto> HStr ''exception'',
                    '':exception-type'' \<mapsto> HStr ''ConflictException''],
         payload = ''{"Message":"A stream is already open"}''\<rparr>)\<close>
proof -
  have h: \<open>json_loads ''{"Message":"A stream is already open"}'' =
      Inr (JObject [(''Message'', JString ''A stream is already open'')])\<close>
    by code_simp
  show ?thesis
    using same_classification_on_messages
      [where http_response =
           \<open>\<lparr>status_code = 409,
             headers = [''x-amzn-errortype'' \<mapsto> ''ConflictException''] \<rparr>\<close>
         and name = "''ConflictException''"
         and ev = \<open>\<lparr>headers = ['':message-type'' \<mapsto> HStr ''exception'',
                                '':exception-type'' \<mapsto> HStr ''ConflictException''],
                     payload = ''{"Message":"A stream is already open"}''\<rparr>\<close>
         and body_bytes = \<open>''{"Message":"A stream is already open"}''\<close>
         and loads = json_loads and others = Map.empty
         and d = "[(''Message'', JString ''A stream is already open'')]"
         and m = "JString ''A stream is already open''"]
    by (simp add: h kind_table_simps)
qed

section \<open>Null tolerance of the nested parsers\<close>




section \<open>The outbound encoder\<close>

text \<open>
  Claim C8. For every audio event, \<^verbatim>\<open>AudioEventSerializer.serialize\<close> returns the
  three headers \<^verbatim>\<open>:message-type = event\<close>, \<^verbatim>\<open>:event-type = AudioEvent\<close> and
  \<^verbatim>\<open>:content-type = application/octet-stream\<close>, and the payload of the event
  unchanged; the payload of an event built from a chunk is that chunk. The function has the
  same body in \<^verbatim>\<open>amazon_transcribe/serialize.py\<close> and in
  \<^verbatim>\<open>transcribe/serialize.py\<close>.
\<close>

theorem serialize_audio_event:
  "serialize audio_event =
     ([('':message-type'', ''event''),
       ('':event-type'', ''AudioEvent''),
       ('':content-type'', ''application/octet-stream'')],
      AudioEvent.payload audio_event)
   \<and> map_of (fst (serialize audio_event)) =
       ['':message-type'' \<mapsto> ''event'', '':event-type'' \<mapsto> ''AudioEvent'',
        '':content-type'' \<mapsto> ''application/octet-stream'']
   \<and> snd (serialize (AudioEvent (Some chunk))) = chunk"
  by (simp add: serialize_def AudioEvent_def fun_eq_iff)

end
